theory Spec2Isabelle
  imports Complex_Main "HOL-Library.Char_ord" "HOL-Library.List_Lexorder"
begin

section \<open>The Shop page of the farm-to-table client\<close>

text \<open>
  The development embeds the \<open>Shop\<close> component of
  \<^verbatim>\<open>src/client/src/pages/user/Cart.js\<close> (lines 83 to 216): its state, the effect that
  fetches the product listings, the effect that derives \<open>filteredProducts\<close> from
  \<open>products\<close>, \<open>filterOption\<close> and \<open>sortOption\<close>, and the three handlers that
  change the filter and the sort.
\<close>

subsection \<open>Data model\<close>

text \<open>
  Modelled from the spec: the declaration of a product (the server's schema) is not part
  of the sources at hand. Section 3 of the specification gives a product the fields id,
  name, imageUrl, description and type, all strings, and price and quantity, both numeric.
  A JavaScript string is a sequence of code units compared unit by unit; it is a
  \<^typ>\<open>string\<close> here, ordered lexicographically by character code, which is exact for text
  whose code units lie below 256. A number that arrives in a JSON body is finite, and
  finite numbers are compared as the reals they denote.
\<close>

record product =
  id' :: string
  name :: string
  imageUrl :: string
  description :: string
  type' :: string
  price :: real
  quantity :: real

text \<open>The four keys that the sort buttons pass to \<open>handleSort\<close>.\<close>

datatype sort_key = Name | Price | Type | Quantity

text \<open>
  \<open>sortOption\<close> is \<open>undefined\<close>, \<open>null\<close> or an object with the single entry
  \<open>{[key]: 1}\<close> or \<open>{[key]: -1}\<close>; \<open>Object.entries(sortOption)[0]\<close> reads that
  entry as the pair of the key and the order. \<open>filterOption\<close> is an object used as a
  dictionary from field names to the text typed by the user.
\<close>

type_synonym sort_option = "(sort_key \<times> int) option"

type_synonym filter_option = "string \<rightharpoonup> string"

subsection \<open>Strings: \<open>toLowerCase\<close> and \<open>includes\<close>\<close>

text \<open>
  Names and filter text are modelled over the code units below 256. On such text
  \<open>toLowerCase\<close> maps unit by unit, every unit that has a lower-case partner to it:
  these are the letters A to Z and the accented capitals 192 to 222 without the
  multiplication sign 215; the partner is 32 places further on. (A later subsection
  treats a fragment of the text beyond unit 255, where the conversion depends on the
  context.)
\<close>

definition lower_char :: "char \<Rightarrow> char" where
  "lower_char c =
     (let n = (of_char c :: nat)
      in if (65 \<le> n \<and> n \<le> 90) \<or> (192 \<le> n \<and> n \<le> 214) \<or> (216 \<le> n \<and> n \<le> 222)
         then char_of (n + 32) else c)"

definition toLowerCase :: "string \<Rightarrow> string" where
  "toLowerCase s = map lower_char s"

fun startsWith :: "'a list \<Rightarrow> 'a list \<Rightarrow> bool" where
  "startsWith s [] = True"
| "startsWith [] (c # cs) = False"
| "startsWith (d # ds) (c # cs) = (d = c \<and> startsWith ds cs)"

text \<open>\<open>s.includes(t)\<close>: \<open>t\<close> occurs in \<open>s\<close> at some position.\<close>

fun string_includes :: "'a list \<Rightarrow> 'a list \<Rightarrow> bool" where
  "string_includes [] t = (t = [])"
| "string_includes (d # ds) t = (startsWith (d # ds) t \<or> string_includes ds t)"

subsection \<open>The filter step\<close>

text \<open>
  A JavaScript value is truthy in a condition unless it is \<open>undefined\<close>, \<open>null\<close> or
  (among strings) the empty string.
\<close>

definition truthy :: "string option \<Rightarrow> bool" where
  "truthy v = (case v of None \<Rightarrow> False | Some s \<Rightarrow> s \<noteq> [])"

text \<open>
  Lines 168 to 172:
  \<^verbatim>\<open>
  if (filterOption.name) {
    filtered = filtered.filter((product) =>
      product.name.toLowerCase().includes(filterOption.name.toLowerCase()));
  }
  \<close>
\<close>

definition nameMatches :: "string \<Rightarrow> product \<Rightarrow> bool" where
  "nameMatches s p = string_includes (toLowerCase (name p)) (toLowerCase s)"

definition applyFilter :: "filter_option \<Rightarrow> product list \<Rightarrow> product list" where
  "applyFilter filterOption filtered =
     (if truthy (filterOption ''name'')
      then filter (nameMatches (the (filterOption ''name''))) filtered
      else filtered)"

subsection \<open>Text beyond code unit 255\<close>

text \<open>
  The \<open>toLowerCase\<close> of the runtime follows the default case conversion of the Unicode
  standard, which is not a map of single code units everywhere: the Greek capital sigma
  (code unit 931) becomes the final small sigma (962) where a cased letter stands before
  it, apart from characters that case ignores, and none stands after it, and the small
  sigma (963) elsewhere. The fragment below covers text made of the letters A to Z and
  a to z and the Greek letters 913 to 937 (capital, 930 being unassigned) and 945 to 969
  (small) only. All of these are cased letters and none is ignored by case, so a sigma
  is final exactly when it is the last unit and not the first; every other capital has
  its small partner 32 places further on. Text with any other unit is outside the
  fragment, and the functions return \<open>None\<close> for it.
\<close>

definition capital_unit :: "nat \<Rightarrow> bool" where
  "capital_unit u = ((65 \<le> u \<and> u \<le> 90) \<or> (913 \<le> u \<and> u \<le> 937 \<and> u \<noteq> 930))"

definition small_unit :: "nat \<Rightarrow> bool" where
  "small_unit u = ((97 \<le> u \<and> u \<le> 122) \<or> (945 \<le> u \<and> u \<le> 969))"

fun lowerUnits :: "bool \<Rightarrow> nat list \<Rightarrow> nat list" where
  "lowerUnits letterBefore [] = []"
| "lowerUnits letterBefore (u # us) =
     (if u = 931 then (if letterBefore \<and> us = [] then 962 else 963)
      else if capital_unit u then u + 32 else u) # lowerUnits True us"

definition toLowerCaseUnits :: "nat list \<Rightarrow> nat list option" where
  "toLowerCaseUnits us =
     (if list_all (\<lambda>u. capital_unit u \<or> small_unit u) us then Some (lowerUnits False us)
      else None)"

text \<open>The test of line 170 on a name and a filter text of this fragment.\<close>

definition nameMatchesUnits :: "nat list \<Rightarrow> nat list \<Rightarrow> bool option" where
  "nameMatchesUnits s n =
     (case (toLowerCaseUnits n, toLowerCaseUnits s) of
        (Some lowerName, Some lowerText) \<Rightarrow> Some (string_includes lowerName lowerText)
      | _ \<Rightarrow> None)"

text \<open>The letters A to Z and a to z, which belong to both models of text.\<close>

definition ascii_letter :: "char \<Rightarrow> bool" where
  "ascii_letter c = ((65 \<le> (of_char c :: nat) \<and> (of_char c :: nat) \<le> 90) \<or>
                     (97 \<le> (of_char c :: nat) \<and> (of_char c :: nat) \<le> 122))"

subsection \<open>The sort step\<close>

text \<open>The comparisons \<open>a[key] > b[key]\<close> and \<open>a[key] < b[key]\<close> on two products.\<close>

definition field_gt :: "sort_key \<Rightarrow> product \<Rightarrow> product \<Rightarrow> bool" where
  "field_gt key a b =
     (case key of
        Name \<Rightarrow> name a > name b
      | Price \<Rightarrow> price a > price b
      | Type \<Rightarrow> type' a > type' b
      | Quantity \<Rightarrow> quantity a > quantity b)"

definition field_lt :: "sort_key \<Rightarrow> product \<Rightarrow> product \<Rightarrow> bool" where
  "field_lt key a b =
     (case key of
        Name \<Rightarrow> name a < name b
      | Price \<Rightarrow> price a < price b
      | Type \<Rightarrow> type' a < type' b
      | Quantity \<Rightarrow> quantity a < quantity b)"

text \<open>
  Lines 176 to 179:
  \<^verbatim>\<open>
  (a, b) => {
    if (order === 1) return a[key] > b[key] ? 1 : -1;
    else return a[key] < b[key] ? 1 : -1;
  }
  \<close>
\<close>

definition comparator :: "sort_key \<Rightarrow> int \<Rightarrow> product \<Rightarrow> product \<Rightarrow> int" where
  "comparator key order a b =
     (if order = 1 then (if field_gt key a b then 1 else - 1)
      else (if field_lt key a b then 1 else - 1))"

text \<open>
  \<open>Array.prototype.sort\<close> belongs to the JavaScript runtime, which guarantees a sorted
  result for a consistent comparator only and leaves the order to the implementation
  otherwise. It is modelled by an insertion sort: the elements are taken from left to
  right, and each one is placed in the sorted part before the first element against which
  the comparator gives it a negative number (where a binary insertion, which asks the
  comparator the same question, also puts it).
\<close>

fun insertBy :: "('a \<Rightarrow> 'a \<Rightarrow> int) \<Rightarrow> 'a \<Rightarrow> 'a list \<Rightarrow> 'a list" where
  "insertBy cmp x [] = [x]"
| "insertBy cmp x (y # ys) = (if cmp x y < 0 then x # y # ys else y # insertBy cmp x ys)"

definition array_sort :: "('a \<Rightarrow> 'a \<Rightarrow> int) \<Rightarrow> 'a list \<Rightarrow> 'a list" where
  "array_sort cmp xs = foldl (\<lambda>sorted x. insertBy cmp x sorted) [] xs"

definition applySort :: "sort_option \<Rightarrow> product list \<Rightarrow> product list" where
  "applySort sortOption filtered =
     (case sortOption of
        None \<Rightarrow> filtered
      | Some (key, order) \<Rightarrow> array_sort (comparator key order) filtered)"

subsection \<open>The pipeline\<close>

text \<open>
  The body of the effect of lines 165 to 183 as a function of its three inputs: the copy
  \<open>[...products]\<close>, the filter step, the sort step. The result is what the effect
  passes to \<open>setFilteredProducts\<close>.
\<close>

definition filterSort :: "product list \<Rightarrow> filter_option \<Rightarrow> sort_option \<Rightarrow> product list" where
  "filterSort products filterOption sortOption =
     applySort sortOption (applyFilter filterOption products)"

subsection \<open>The pipeline on a store of arrays\<close>

text \<open>
  A JavaScript array is an object behind a reference, and \<open>sort\<close> reorders the array it
  is called on. To say which arrays the effect writes, the arrays live in a store and
  the two state cells hold addresses. An address is an index into the store; a new array
  gets the next index.
\<close>

type_synonym addr = nat

type_synonym store = "product list list"

record shop_refs =
  productsRef :: addr
  filteredProductsRef :: addr
  arrays :: store

definition alloc :: "product list \<Rightarrow> store \<Rightarrow> addr \<times> store" where
  "alloc xs h = (length h, h @ [xs])"

text \<open>
  Lines 166 to 182 once more: the spread \<open>[...products]\<close> and \<open>filter\<close> each make a
  new array, \<open>sort\<close> writes the array that \<open>filtered\<close> refers to, and
  \<open>setFilteredProducts\<close> stores that reference.
\<close>

definition filterSortStore :: "filter_option \<Rightarrow> sort_option \<Rightarrow> shop_refs \<Rightarrow> shop_refs" where
  "filterSortStore filterOption sortOption r =
     (let (filtered, h) = alloc (arrays r ! productsRef r) (arrays r);
          (filtered, h) =
            (if truthy (filterOption ''name'')
             then alloc (filter (nameMatches (the (filterOption ''name''))) (h ! filtered)) h
             else (filtered, h));
          h = (case sortOption of
                 None \<Rightarrow> h
               | Some (key, order) \<Rightarrow>
                   h[filtered := array_sort (comparator key order) (h ! filtered)])
      in r\<lparr> filteredProductsRef := filtered, arrays := h \<rparr>)"

text \<open>A reference held by the state points into the store.\<close>

definition valid_refs :: "shop_refs \<Rightarrow> bool" where
  "valid_refs r = (productsRef r < length (arrays r) \<and> filteredProductsRef r < length (arrays r))"

subsection \<open>The state of the component\<close>

text \<open>
  What the component writes to the console: \<open>console.error\<close> with a message and the
  status text or the exception when there is one, and \<open>console.log\<close> with the fetched
  data.
\<close>

datatype console_entry =
    ConsoleError string "string option"
  | ConsoleLog string "product list"

text \<open>
  The \<open>useState\<close> cells of lines 84 to 92 that the fetch, the pipeline and the handlers
  read or write, and the console. Arrays are held by value here; the store of arrays
  behind the references is modelled further down.
\<close>

record shop =
  products :: "product list"
  filteredProducts :: "product list"
  loading :: bool
  sortOption :: sort_option
  filterOption :: filter_option
  activeSort :: "(sort_key \<times> string) option"
  filterRef :: string \<comment> \<open>the text in the search box, \<open>filterRef.current.value\<close>\<close>
  console :: "console_entry list"

text \<open>The initial values given to \<open>useState\<close>; \<open>sortOption\<close> starts undefined.\<close>

definition initial :: shop where
  "initial = \<lparr> products = [], filteredProducts = [], loading = True, sortOption = None,
               filterOption = Map.empty, activeSort = None, filterRef = [], console = [] \<rparr>"

subsection \<open>Fetching the product listings\<close>

text \<open>
  What the request can come to: \<open>fetch\<close> rejects with an exception, or it resolves with
  a response that carries \<open>ok\<close> (the status is in the range 200 to 299), \<open>statusText\<close>
  and a body that \<open>response.json()\<close> either reads as an array of products or rejects.
\<close>

record response =
  ok :: bool
  statusText :: string
  json :: "string + product list"

datatype fetch_result = Rejected string | Resolved response

definition consoleError :: "string \<Rightarrow> string option \<Rightarrow> shop \<Rightarrow> shop" where
  "consoleError msg detail s = s\<lparr> console := console s @ [ConsoleError msg detail] \<rparr>"

definition consoleLog :: "string \<Rightarrow> product list \<Rightarrow> shop \<Rightarrow> shop" where
  "consoleLog msg data s = s\<lparr> console := console s @ [ConsoleLog msg data] \<rparr>"

definition setLoading :: "bool \<Rightarrow> shop \<Rightarrow> shop" where
  "setLoading v s = s\<lparr> loading := v \<rparr>"

definition setProducts :: "product list \<Rightarrow> shop \<Rightarrow> shop" where
  "setProducts v s = s\<lparr> products := v \<rparr>"

definition setFilteredProducts :: "product list \<Rightarrow> shop \<Rightarrow> shop" where
  "setFilteredProducts v s = s\<lparr> filteredProducts := v \<rparr>"

text \<open>
  \<open>fetchProducts\<close>, lines 122 to 154. The token is absent (\<open>undefined\<close> or \<open>null\<close>) or
  a string. Without a truthy token the function logs, clears the flag and returns; else
  the \<open>try\<close> block runs on the outcome of the request, every exception ends in the
  \<open>catch\<close> branch, and the \<open>finally\<close> branch clears the flag.
\<close>

definition fetchProducts :: "string option \<Rightarrow> fetch_result \<Rightarrow> shop \<Rightarrow> shop" where
  "fetchProducts token result s =
     (if \<not> truthy token then setLoading False (consoleError ''No token found'' None s)
      else setLoading False
        (case result of
           Rejected error \<Rightarrow> consoleError ''Error fetching products:'' (Some error) s
         | Resolved response \<Rightarrow>
             if ok response then
               (case json response of
                  Inr data \<Rightarrow>
                    setFilteredProducts data
                      (setProducts data (consoleLog ''Fetched products:'' data s))
                | Inl error \<Rightarrow> consoleError ''Error fetching products:'' (Some error) s)
             else consoleError ''Error fetching products:'' (Some (statusText response)) s))"

text \<open>
  The three failures of a fetch attempt: no token, a network exception, a response
  outside 200 to 299.
\<close>

definition fetchFails :: "string option \<Rightarrow> fetch_result \<Rightarrow> bool" where
  "fetchFails token result =
     (\<not> truthy token \<or>
      (case result of Rejected error \<Rightarrow> True | Resolved response \<Rightarrow> \<not> ok response))"

subsection \<open>The pipeline as an effect, and the handlers\<close>

text \<open>The effect of lines 165 to 183 on the state.\<close>

definition filterSortEffect :: "shop \<Rightarrow> shop" where
  "filterSortEffect s =
     setFilteredProducts (filterSort (products s) (filterOption s) (sortOption s)) s"

text \<open>\<open>handleSort\<close>, lines 200 to 203; the order is the button's word.\<close>

definition handleSort :: "sort_key \<Rightarrow> string \<Rightarrow> shop \<Rightarrow> shop" where
  "handleSort key order s =
     s\<lparr> activeSort := Some (key, order),
        sortOption := Some (key, if order = ''Ascending'' then 1 else - 1) \<rparr>"

text \<open>
  \<open>handleFilter\<close>, lines 206 to 208, and the \<open>onChange\<close> of the search box (line 229),
  which calls it with the key \<open>name\<close> and the text now in the box.
\<close>

definition handleFilter :: "string \<Rightarrow> string \<Rightarrow> shop \<Rightarrow> shop" where
  "handleFilter key v s = s\<lparr> filterOption := (filterOption s)(key \<mapsto> v) \<rparr>"

definition onChange :: "string \<Rightarrow> shop \<Rightarrow> shop" where
  "onChange v s = handleFilter ''name'' v (s\<lparr> filterRef := v \<rparr>)"

text \<open>\<open>handleReset\<close>, lines 211 to 216.\<close>

definition handleReset :: "shop \<Rightarrow> shop" where
  "handleReset s =
     s\<lparr> filterOption := Map.empty, sortOption := None, activeSort := None, filterRef := [] \<rparr>"

subsection \<open>The properties in the words of the specification\<close>

text \<open>
  The ordering relation of a key and a direction: in ascending order (\<open>order\<close> is 1) the
  value of the first product is not above the value of the second, in descending order
  it is not below.
\<close>

definition field_le :: "sort_key \<Rightarrow> product \<Rightarrow> product \<Rightarrow> bool" where
  "field_le key a b =
     (case key of
        Name \<Rightarrow> name a \<le> name b
      | Price \<Rightarrow> price a \<le> price b
      | Type \<Rightarrow> type' a \<le> type' b
      | Quantity \<Rightarrow> quantity a \<le> quantity b)"

definition in_order :: "sort_key \<Rightarrow> int \<Rightarrow> product \<Rightarrow> product \<Rightarrow> bool" where
  "in_order key order a b = (if order = 1 then field_le key a b else field_le key b a)"






subsection \<open>Sample data\<close>

text \<open>
  The two products of the specification's example (they are the entries of the admin
  page's list) and a third one, with the fields the example leaves open filled in.
\<close>

definition orange :: product where
  "orange = \<lparr> id' = ''p1'', name = ''Orange'', imageUrl = ''orange.jpg'',
              description = ''Lorem ipsum'', type' = ''Fruit'', price = 99, quantity = 12 \<rparr>"

definition orange_orange :: product where
  "orange_orange = \<lparr> id' = ''p2'', name = ''Orange orange'', imageUrl = ''orange.jpg'',
              description = ''Lorem ipsum'', type' = ''Fruit'', price = 299, quantity = 5 \<rparr>"

definition rice :: product where
  "rice = \<lparr> id' = ''p3'', name = ''rice'', imageUrl = ''rice.jpg'',
            description = ''dolor sit amet'', type' = ''Crop'', price = 45, quantity = 12 \<rparr>"

definition ok_response :: "product list \<Rightarrow> response" where
  "ok_response data = \<lparr> ok = True, statusText = ''OK'', json = Inr data \<rparr>"

definition error_response :: response where
  "error_response = \<lparr> ok = False, statusText = ''Internal Server Error'',
                       json = Inl ''Unexpected token'' \<rparr>"

section \<open>The sort step orders the list\<close>

lemma set_insertBy: "set (insertBy cmp x ys) = insert x (set ys)"
  by (induction ys) auto

lemma sorted_wrt_insertBy:
  "transp R \<Longrightarrow> \<forall>u v. cmp u v < 0 \<longrightarrow> R u v \<Longrightarrow> \<forall>u v. \<not> cmp u v < 0 \<longrightarrow> R v u \<Longrightarrow>
   sorted_wrt R ys \<Longrightarrow> sorted_wrt R (insertBy cmp x ys)"
proof (induction ys)
  case Nil
  show ?case by simp
next
  case (Cons y ys)
  show ?case
  proof (cases "cmp x y < 0")
    case True
    have xy: "R x y" using True Cons.prems(2) by simp
    have "R x z" if "z \<in> set ys" for z
    proof -
      have "R y z" using Cons.prems(4) that by simp
      with xy show ?thesis using Cons.prems(1) by (blast dest: transpD)
    qed
    with xy True Cons.prems(4) show ?thesis by simp
  next
    case False
    have yx: "R y x" using False Cons.prems(3) by simp
    have "sorted_wrt R (insertBy cmp x ys)" using Cons by simp
    with yx False Cons.prems(4) show ?thesis by (auto simp: set_insertBy)
  qed
qed

lemma sorted_wrt_foldl_insertBy:
  "transp R \<Longrightarrow> \<forall>u v. cmp u v < 0 \<longrightarrow> R u v \<Longrightarrow> \<forall>u v. \<not> cmp u v < 0 \<longrightarrow> R v u \<Longrightarrow>
   sorted_wrt R acc \<Longrightarrow> sorted_wrt R (foldl (\<lambda>sorted x. insertBy cmp x sorted) acc xs)"
proof (induction xs arbitrary: acc)
  case Nil
  then show ?case by simp
next
  case (Cons x xs)
  have "sorted_wrt R (insertBy cmp x acc)"
    using Cons.prems by (rule sorted_wrt_insertBy)
  then show ?case using Cons.IH Cons.prems(1-3) by simp
qed

lemma set_foldl_insertBy:
  "set (foldl (\<lambda>sorted x. insertBy cmp x sorted) acc xs) = set acc \<union> set xs"
  by (induction xs arbitrary: acc) (auto simp: set_insertBy)

lemma set_array_sort: "set (array_sort cmp xs) = set xs"
  by (simp add: array_sort_def set_foldl_insertBy)

lemma length_insertBy: "length (insertBy cmp x ys) = Suc (length ys)"
  by (induction ys) auto

lemma length_foldl_insertBy:
  "length (foldl (\<lambda>sorted x. insertBy cmp x sorted) acc xs) = length acc + length xs"
  by (induction xs arbitrary: acc) (auto simp: length_insertBy)

lemma length_array_sort: "length (array_sort cmp xs) = length xs"
  by (simp add: array_sort_def length_foldl_insertBy)

lemma transp_in_order: "transp (in_order key order)"
  by (rule transpI) (auto simp: in_order_def field_le_def split: sort_key.splits if_splits)

lemma comparator_neg_in_order: "comparator key order a b < 0 \<Longrightarrow> in_order key order a b"
  by (auto simp: comparator_def in_order_def field_le_def field_gt_def field_lt_def
           split: sort_key.splits if_splits)

lemma comparator_pos_in_order: "\<not> comparator key order a b < 0 \<Longrightarrow> in_order key order b a"
  by (auto simp: comparator_def in_order_def field_le_def field_gt_def field_lt_def
           split: sort_key.splits if_splits)

lemma sorted_wrt_array_sort:
  "sorted_wrt (in_order key order) (array_sort (comparator key order) xs)"
  unfolding array_sort_def
  by (rule sorted_wrt_foldl_insertBy)
     (simp_all add: transp_in_order comparator_neg_in_order comparator_pos_in_order)

lemma filteredProducts_filterSortEffect:
  "filteredProducts (filterSortEffect s) = filterSort (products s) (filterOption s) (sortOption s)"
  by (simp add: filterSortEffect_def setFilteredProducts_def)

text \<open>
  C1. Once the effect has run with a sort option of any key and either direction, each
  element of \<open>filteredProducts\<close> and its right neighbour are in the order of that key and
  direction: ascending puts the smaller value first, descending the larger. The elements
  are those that the filter step kept, as many as it kept.
\<close>

theorem sorted_adjacent_pairs:
  "sortOption s = Some (key, order) \<Longrightarrow>
   (\<forall>i. Suc i < length (filteredProducts (filterSortEffect s)) \<longrightarrow>
       in_order key order (filteredProducts (filterSortEffect s) ! i)
                          (filteredProducts (filterSortEffect s) ! Suc i)) \<and>
   set (filteredProducts (filterSortEffect s)) = set (applyFilter (filterOption s) (products s)) \<and>
   length (filteredProducts (filterSortEffect s)) = length (applyFilter (filterOption s) (products s))"
proof (intro conjI allI impI)
  let ?fs = "filteredProducts (filterSortEffect s)"
  assume so: "sortOption s = Some (key, order)"
  then have fs: "?fs = array_sort (comparator key order) (applyFilter (filterOption s) (products s))"
    by (simp add: filteredProducts_filterSortEffect filterSort_def applySort_def)
  show "set ?fs = set (applyFilter (filterOption s) (products s))"
    by (simp add: fs set_array_sort)
  show "length ?fs = length (applyFilter (filterOption s) (products s))"
    by (simp add: fs length_array_sort)
  fix i
  assume i: "Suc i < length ?fs"
  have "sorted_wrt (in_order key order) ?fs"
    by (simp add: fs sorted_wrt_array_sort)
  then show "in_order key order (?fs ! i) (?fs ! Suc i)"
    using i by (simp add: sorted_wrt_nth_less)
qed

theorem sorted_adjacent_pairs_witness:
  "sortOption (handleSort Price ''Descending'' (setProducts [orange, rice, orange_orange] initial))
     = Some (Price, - 1) \<and>
   filteredProducts (filterSortEffect
       (handleSort Price ''Descending'' (setProducts [orange, rice, orange_orange] initial)))
     = [orange_orange, orange, rice] \<and>
   in_order Price (- 1) orange_orange orange \<and> in_order Price (- 1) orange rice"
proof -
  let ?s = "handleSort Price ''Descending'' (setProducts [orange, rice, orange_orange] initial)"
  have so: "sortOption ?s = Some (Price, - 1)"
    by (simp add: handleSort_def)
  have fs: "filteredProducts (filterSortEffect ?s) = [orange_orange, orange, rice]"
    by code_simp
  have adj: "\<forall>i. Suc i < length (filteredProducts (filterSortEffect ?s)) \<longrightarrow>
       in_order Price (- 1) (filteredProducts (filterSortEffect ?s) ! i)
                            (filteredProducts (filterSortEffect ?s) ! Suc i)"
    using sorted_adjacent_pairs [OF so] by (rule conjunct1)
  have "in_order Price (- 1) orange_orange orange"
    using adj [rule_format, of 0] by (simp add: fs)
  moreover have "in_order Price (- 1) orange rice"
    using adj [rule_format, of 1] by (simp add: fs)
  ultimately show ?thesis using so fs by blast
qed

text \<open>
  C2. The comparator never returns 0. For the ascending order it returns 1 exactly when
  \<open>a[key] > b[key]\<close> and -1 otherwise, for any other order 1 exactly when
  \<open>a[key] < b[key]\<close> and -1 otherwise; two products whose values neither test tells
  apart get -1 whichever comes first.
\<close>

theorem comparator_never_zero:
  "comparator key order a b \<noteq> 0 \<and>
   (order = 1 \<longrightarrow>
      (comparator key order a b = 1 \<longleftrightarrow> field_gt key a b) \<and>
      (comparator key order a b = - 1 \<longleftrightarrow> \<not> field_gt key a b)) \<and>
   (order \<noteq> 1 \<longrightarrow>
      (comparator key order a b = 1 \<longleftrightarrow> field_lt key a b) \<and>
      (comparator key order a b = - 1 \<longleftrightarrow> \<not> field_lt key a b)) \<and>
   (\<not> field_gt key a b \<and> \<not> field_lt key a b \<longrightarrow>
      comparator key order a b = - 1 \<and> comparator key order b a = - 1)"
  by (auto simp: comparator_def field_gt_def field_lt_def split: sort_key.splits)

theorem comparator_never_zero_witness:
  "comparator Quantity 1 orange rice = - 1 \<and> comparator Quantity 1 rice orange = - 1 \<and>
   comparator Price 1 orange rice = 1 \<and> comparator Price (- 1) orange rice = - 1 \<and>
   comparator Price (- 1) rice orange = 1 \<and> \<not> field_gt Quantity orange rice \<and>
   \<not> field_lt Quantity orange rice \<and> field_gt Price orange rice"
proof -
  have q: "\<not> field_gt Quantity orange rice \<and> \<not> field_lt Quantity orange rice"
    by (simp add: field_gt_def field_lt_def orange_def rice_def)
  have p: "field_gt Price orange rice" "field_lt Price rice orange" "\<not> field_lt Price orange rice"
    by (simp_all add: field_gt_def field_lt_def orange_def rice_def)
  have one: "(1::int) = 1" and other: "(- 1::int) \<noteq> 1" by simp_all
  show ?thesis
    using q p one other
      comparator_never_zero [of Quantity 1 orange rice]
      comparator_never_zero [of Price 1 orange rice]
      comparator_never_zero [of Price "- 1" orange rice]
      comparator_never_zero [of Price "- 1" rice orange]
    by blast
qed

section \<open>The fetch attempt\<close>

lemma products_failed_fetch:
  "fetchFails token result \<Longrightarrow> products (fetchProducts token result s) = products s"
  by (auto simp: fetchFails_def fetchProducts_def setLoading_def consoleError_def
           split: fetch_result.splits)

lemma loading_fetchProducts: "\<not> loading (fetchProducts token result s)"
  by (simp add: fetchProducts_def setLoading_def)

text \<open>
  C3, as the code has it. A fetch attempt that fails, for want of a token, by a network
  exception or by a response outside 200 to 299, leaves \<open>products\<close> as it was, so empty
  if it was empty, and leaves the loading flag false. The flag goes from true to false
  in an attempt that starts with the flag true, as the first attempt does, which starts
  from the initial state with the empty list; in an attempt that starts with the flag
  false it stays false.
\<close>

theorem failed_fetch_keeps_products:
  "fetchFails token result \<Longrightarrow>
     products (fetchProducts token result s) = products s \<and>
     (products s = [] \<longrightarrow> products (fetchProducts token result s) = []) \<and>
     \<not> loading (fetchProducts token result s) \<and>
     (loading s \<longrightarrow> loading s \<and> \<not> loading (fetchProducts token result s)) \<and>
     (\<not> loading s \<longrightarrow> loading (fetchProducts token result s) = loading s) \<and>
     loading initial \<and> \<not> loading (fetchProducts token result initial) \<and>
     products initial = [] \<and> products (fetchProducts token result initial) = []"
  by (simp add: products_failed_fetch loading_fetchProducts initial_def)

theorem failed_fetch_keeps_products_witness:
  "fetchFails None (Resolved (ok_response [rice])) \<and>
   fetchFails (Some ''token'') (Rejected ''Failed to fetch'') \<and>
   fetchFails (Some ''token'') (Resolved error_response) \<and>
   products (fetchProducts (Some ''token'') (Resolved (ok_response [orange])) initial) = [orange] \<and>
   products (fetchProducts None (Resolved (ok_response [rice]))
     (fetchProducts (Some ''token'') (Resolved (ok_response [orange])) initial)) = [orange] \<and>
   products (fetchProducts (Some ''token'') (Rejected ''Failed to fetch'')
     (fetchProducts (Some ''token'') (Resolved (ok_response [orange])) initial)) = [orange] \<and>
   products (fetchProducts (Some ''token'') (Resolved error_response)
     (fetchProducts (Some ''token'') (Resolved (ok_response [orange])) initial)) = [orange] \<and>
   loading initial \<and> \<not> loading (fetchProducts (Some ''token'') (Resolved error_response) initial) \<and>
   products (fetchProducts (Some ''token'') (Resolved error_response) initial) = []"
proof -
  let ?s = "fetchProducts (Some ''token'') (Resolved (ok_response [orange])) initial"
  have f1: "fetchFails None (Resolved (ok_response [rice]))"
    by (simp add: fetchFails_def truthy_def)
  have f2: "fetchFails (Some ''token'') (Rejected ''Failed to fetch'')"
    by (simp add: fetchFails_def truthy_def)
  have f3: "fetchFails (Some ''token'') (Resolved error_response)"
    by (simp add: fetchFails_def truthy_def error_response_def)
  have s: "products ?s = [orange]"
    by (simp add: fetchProducts_def truthy_def ok_response_def setLoading_def
                  setFilteredProducts_def setProducts_def)
  show ?thesis
    using f1 f2 f3 s
      failed_fetch_keeps_products [OF f1, of ?s]
      failed_fetch_keeps_products [OF f2, of ?s]
      failed_fetch_keeps_products [OF f3, of ?s]
    by simp
qed

text \<open>
  The claim C3 as it is written fails where it has the flag go from true to false in
  every failing attempt: no line of the component sets the flag to true again. After a
  first attempt that fetched the list with the orange, the token goes away (the user logs
  out) and the second attempt fails for want of a token; it starts with the flag already
  false, so the flag does not go from true to false in it.
\<close>

theorem failed_fetch_no_transition:
  "fetchFails None (Rejected ''Failed to fetch'') \<and>
   \<not> (loading (fetchProducts (Some ''token'') (Resolved (ok_response [orange])) initial) \<and>
      \<not> loading (fetchProducts None (Rejected ''Failed to fetch'')
           (fetchProducts (Some ''token'') (Resolved (ok_response [orange])) initial)))"
  by (simp add: fetchFails_def fetchProducts_def truthy_def setLoading_def)

text \<open>
  C4, as the code has it. A fetch attempt that fails writes the failure to the console
  and leaves the product list as it was before the attempt: empty if it was empty, the
  list fetched earlier otherwise.
\<close>

theorem failed_fetch_logs_keeps_list:
  "fetchFails token result \<Longrightarrow>
     console (fetchProducts token result s) =
       console s @
         [if \<not> truthy token then ConsoleError ''No token found'' None
          else ConsoleError ''Error fetching products:''
                 (Some (case result of Rejected error \<Rightarrow> error
                                     | Resolved response \<Rightarrow> statusText response))] \<and>
     products (fetchProducts token result s) = products s \<and>
     (products s = [] \<longrightarrow> products (fetchProducts token result s) = [])"
  by (auto simp: fetchFails_def fetchProducts_def setLoading_def consoleError_def
           split: fetch_result.splits)

theorem failed_fetch_logs_keeps_list_witness:
  "fetchFails (Some ''token'') (Resolved error_response) \<and>
   console (fetchProducts (Some ''token'') (Resolved error_response) initial) =
     [ConsoleError ''Error fetching products:'' (Some ''Internal Server Error'')] \<and>
   products (fetchProducts (Some ''token'') (Resolved error_response) initial) = []"
proof -
  have f: "fetchFails (Some ''token'') (Resolved error_response)"
    by (simp add: fetchFails_def truthy_def error_response_def)
  have t: "truthy (Some ''token'')" by (simp add: truthy_def)
  show ?thesis
    using f t failed_fetch_logs_keeps_list [OF f, of initial]
    by (simp add: initial_def error_response_def)
qed

text \<open>
  The claim C4 as it is written fails: after a fetch that brought the list with the
  orange, a second attempt that meets a response outside 200 to 299 leaves that list in
  place and not the empty one.
\<close>

theorem failed_fetch_list_not_emptied:
  "fetchFails (Some ''token'') (Resolved error_response) \<and>
   products (fetchProducts (Some ''token'') (Resolved error_response)
     (fetchProducts (Some ''token'') (Resolved (ok_response [orange])) initial)) \<noteq> []"
  by (simp add: fetchFails_def fetchProducts_def truthy_def ok_response_def error_response_def
                setLoading_def setFilteredProducts_def setProducts_def consoleError_def)

text \<open>
  C8. A fetch attempt made with a token that meets a response in the range 200 to 299
  whose body reads as an array of products puts that array into both \<open>products\<close> and
  \<open>filteredProducts\<close>.
\<close>

theorem successful_fetch_replaces_lists:
  "truthy token \<Longrightarrow> ok response \<Longrightarrow> json response = Inr data \<Longrightarrow>
     products (fetchProducts token (Resolved response) s) = data \<and>
     filteredProducts (fetchProducts token (Resolved response) s) = data"
  by (simp add: fetchProducts_def setLoading_def setFilteredProducts_def setProducts_def)

theorem successful_fetch_replaces_lists_witness:
  "truthy (Some ''token'') \<and> ok (ok_response [orange, rice]) \<and>
   json (ok_response [orange, rice]) = Inr [orange, rice] \<and>
   products (fetchProducts (Some ''token'') (Resolved (ok_response [orange, rice]))
     (setFilteredProducts [orange_orange] (setProducts [orange_orange] initial))) = [orange, rice] \<and>
   filteredProducts (fetchProducts (Some ''token'') (Resolved (ok_response [orange, rice]))
     (setFilteredProducts [orange_orange] (setProducts [orange_orange] initial))) = [orange, rice]"
proof -
  have t: "truthy (Some ''token'')" by (simp add: truthy_def)
  have k: "ok (ok_response [orange, rice])" by (simp add: ok_response_def)
  have j: "json (ok_response [orange, rice]) = Inr [orange, rice]" by (simp add: ok_response_def)
  show ?thesis
    using t k j successful_fetch_replaces_lists [OF t k j] by blast
qed

section \<open>The filter step and the reset\<close>



















text \<open>
  On text of the letters A to Z and a to z the fragment beyond unit 255 and the model
  below 256 give the same lower-case text and the same answer to the test of line 170.
\<close>

lemma of_char_lower_char:
  "ascii_letter c \<Longrightarrow>
     (of_char (lower_char c) :: nat) =
       (if capital_unit (of_char c) then of_char c + 32 else of_char c)"
  by (auto simp: ascii_letter_def lower_char_def capital_unit_def Let_def)

lemma lowerUnits_ascii:
  "list_all ascii_letter s \<Longrightarrow>
     lowerUnits b (map of_char s) = map of_char (toLowerCase s)"
proof (induction s arbitrary: b)
  case Nil
  show ?case by (simp add: toLowerCase_def)
next
  case (Cons c cs)
  have "(of_char c :: nat) \<noteq> 931" using Cons.prems by (auto simp: ascii_letter_def)
  with Cons show ?case by (simp add: toLowerCase_def of_char_lower_char)
qed

lemma toLowerCaseUnits_ascii:
  "list_all ascii_letter s \<Longrightarrow>
     toLowerCaseUnits (map of_char s) = Some (map of_char (toLowerCase s))"
proof -
  assume a: "list_all ascii_letter s"
  then have "list_all (\<lambda>u. capital_unit u \<or> small_unit u) (map of_char s)"
    by (auto simp: list_all_iff ascii_letter_def capital_unit_def small_unit_def)
  with a show ?thesis by (simp add: toLowerCaseUnits_def lowerUnits_ascii)
qed


lemma startsWith_map_inj:
  "inj f \<Longrightarrow> startsWith (map f s) (map f t) = startsWith s t"
  by (induction s t rule: startsWith.induct) (auto dest: injD)

lemma string_includes_map_inj:
  "inj f \<Longrightarrow> string_includes (map f s) (map f t) = string_includes s t"
proof (induction s)
  case Nil
  show ?case by simp
next
  case (Cons d ds)
  have "startsWith (map f (d # ds)) (map f t) = startsWith (d # ds) t"
    using Cons.prems by (rule startsWith_map_inj)
  with Cons show ?case by simp
qed

lemma nameMatchesUnits_ascii:
  "list_all ascii_letter s \<Longrightarrow> list_all ascii_letter (name p) \<Longrightarrow>
     nameMatchesUnits (map of_char s) (map of_char (name p)) = Some (nameMatches s p)"
proof -
  have inj: "inj (of_char :: char \<Rightarrow> nat)" by (rule injI) simp
  assume "list_all ascii_letter s" "list_all ascii_letter (name p)"
  then show ?thesis
    by (simp add: nameMatchesUnits_def toLowerCaseUnits_ascii nameMatches_def
                  string_includes_map_inj [OF inj])
qed


text \<open>
  C7. Filtering by name is idempotent: the filter step applied with a text to its own
  result with that text gives that result again, and so does the filter of the step
  taken by itself.
\<close>

theorem name_filter_idempotent:
  "applyFilter (filterOpt(''name'' \<mapsto> s)) (applyFilter (filterOpt(''name'' \<mapsto> s)) P)
     = applyFilter (filterOpt(''name'' \<mapsto> s)) P \<and>
   filter (nameMatches s) (filter (nameMatches s) P) = filter (nameMatches s) P \<and>
   applyFilter filterOpt (applyFilter filterOpt P) = applyFilter filterOpt P"
  by (simp add: applyFilter_def)

theorem name_filter_idempotent_witness:
  "applyFilter [''name'' \<mapsto> ''ORANGE''] [orange, rice, orange_orange] = [orange, orange_orange] \<and>
   applyFilter [''name'' \<mapsto> ''ORANGE'']
     (applyFilter [''name'' \<mapsto> ''ORANGE''] [orange, rice, orange_orange]) = [orange, orange_orange]"
proof -
  have 1: "applyFilter [''name'' \<mapsto> ''ORANGE''] [orange, rice, orange_orange] = [orange, orange_orange]"
    by code_simp
  show ?thesis
    using 1 name_filter_idempotent [of Map.empty "''ORANGE''" "[orange, rice, orange_orange]"]
    by simp
qed

text \<open>
  C5. Whatever the filter and the sort were, after \<open>handleReset\<close> the filter is the
  empty object and the sort is unset, and the pipeline run on that state makes
  \<open>filteredProducts\<close> equal to \<open>products\<close>, the same elements in the same order;
  \<open>products\<close> itself is not changed by either.
\<close>

theorem reset_restores_products:
  "filteredProducts (filterSortEffect (handleReset s)) = products s \<and>
   products (filterSortEffect (handleReset s)) = products s \<and>
   filterOption (handleReset s) = Map.empty \<and> sortOption (handleReset s) = None"
  by (simp add: filteredProducts_filterSortEffect handleReset_def filterSort_def applySort_def
                applyFilter_def truthy_def filterSortEffect_def setFilteredProducts_def)

theorem reset_restores_products_witness:
  "filteredProducts (filterSortEffect (handleSort Price ''Ascending''
     (onChange ''o'' (setProducts [orange_orange, rice, orange] initial)))) = [orange, orange_orange] \<and>
   filteredProducts (filterSortEffect (handleReset (filterSortEffect (handleSort Price ''Ascending''
     (onChange ''o'' (setProducts [orange_orange, rice, orange] initial))))))
     = [orange_orange, rice, orange]"
proof -
  let ?s = "filterSortEffect (handleSort Price ''Ascending''
     (onChange ''o'' (setProducts [orange_orange, rice, orange] initial)))"
  have 1: "filteredProducts ?s = [orange, orange_orange]" by code_simp
  have 2: "products ?s = [orange_orange, rice, orange]"
    by (simp add: filterSortEffect_def setFilteredProducts_def handleSort_def onChange_def
                  handleFilter_def setProducts_def)
  show ?thesis using 1 2 reset_restores_products [of ?s] by simp
qed

text \<open>
  C10. An empty text in \<open>filterOption.name\<close> is falsy, so the filter step is skipped
  and returns its input; with no sort set the pipeline then returns the products as they
  are, and emptying the search box brings the unfiltered list back.
\<close>

theorem empty_name_skips_filter:
  "\<not> truthy ((filterOpt(''name'' \<mapsto> [])) ''name'') \<and>
   applyFilter (filterOpt(''name'' \<mapsto> [])) P = P \<and>
   filterSort P (filterOpt(''name'' \<mapsto> [])) None = P \<and>
   filteredProducts (filterSortEffect (onChange [] (s\<lparr> sortOption := None \<rparr>))) = products s"
  by (simp add: truthy_def applyFilter_def filterSort_def applySort_def filterSortEffect_def
                setFilteredProducts_def onChange_def handleFilter_def)

theorem empty_name_skips_filter_witness:
  "filteredProducts (filterSortEffect (onChange ''ric'' (setProducts [orange, rice] initial))) = [rice] \<and>
   filteredProducts (filterSortEffect (onChange []
     (filterSortEffect (onChange ''ric'' (setProducts [orange, rice] initial))))) = [orange, rice]"
proof -
  let ?s = "filterSortEffect (onChange ''ric'' (setProducts [orange, rice] initial))"
  have 1: "filteredProducts ?s = [rice]" by code_simp
  have 2: "products ?s = [orange, rice]" "?s\<lparr> sortOption := None \<rparr> = ?s"
    by (simp_all add: filterSortEffect_def setFilteredProducts_def onChange_def
                  handleFilter_def setProducts_def initial_def)
  show ?thesis
    using 1 2 empty_name_skips_filter [of Map.empty "[]" ?s] by simp
qed

section \<open>The pipeline and the array of products\<close>

text \<open>
  C9. Run on a store in which \<open>products\<close> refers to an array, the pipeline writes no
  array that was there before, the array of \<open>products\<close> among them: its elements and
  their order are as before, and the cell still holds the same reference. The reference
  put into \<open>filteredProducts\<close> is that of an array made during the run, distinct from
  the array of \<open>products\<close>, and this array holds the result of the pipeline.
\<close>

theorem pipeline_keeps_products_array:
  "productsRef r < length (arrays r) \<Longrightarrow>
     productsRef (filterSortStore filterOpt sortOpt r) = productsRef r \<and>
     arrays (filterSortStore filterOpt sortOpt r) ! productsRef r = arrays r ! productsRef r \<and>
     (\<forall>a < length (arrays r). arrays (filterSortStore filterOpt sortOpt r) ! a = arrays r ! a) \<and>
     filteredProductsRef (filterSortStore filterOpt sortOpt r) \<noteq> productsRef r \<and>
     length (arrays r) \<le> filteredProductsRef (filterSortStore filterOpt sortOpt r) \<and>
     valid_refs (filterSortStore filterOpt sortOpt r) \<and>
     arrays (filterSortStore filterOpt sortOpt r) ! filteredProductsRef (filterSortStore filterOpt sortOpt r)
       = filterSort (arrays r ! productsRef r) filterOpt sortOpt"
  by (cases sortOpt)
     (auto simp: filterSortStore_def alloc_def valid_refs_def filterSort_def applyFilter_def
                 applySort_def nth_append nth_list_update)

theorem pipeline_keeps_products_array_witness:
  "productsRef \<lparr> productsRef = 0, filteredProductsRef = 0, arrays = [[orange_orange, rice, orange]] \<rparr>
     < length (arrays \<lparr> productsRef = 0, filteredProductsRef = 0,
                       arrays = [[orange_orange, rice, orange]] \<rparr>) \<and>
   arrays (filterSortStore [''name'' \<mapsto> ''o''] (Some (Price, 1))
     \<lparr> productsRef = 0, filteredProductsRef = 0, arrays = [[orange_orange, rice, orange]] \<rparr>) ! 0
     = [orange_orange, rice, orange] \<and>
   filteredProductsRef (filterSortStore [''name'' \<mapsto> ''o''] (Some (Price, 1))
     \<lparr> productsRef = 0, filteredProductsRef = 0, arrays = [[orange_orange, rice, orange]] \<rparr>) = 2 \<and>
   arrays (filterSortStore [''name'' \<mapsto> ''o''] (Some (Price, 1))
     \<lparr> productsRef = 0, filteredProductsRef = 0, arrays = [[orange_orange, rice, orange]] \<rparr>) ! 2
     = [orange, orange_orange]"
proof -
  let ?r = "\<lparr> productsRef = 0, filteredProductsRef = 0, arrays = [[orange_orange, rice, orange]] \<rparr>"
  let ?r' = "filterSortStore [''name'' \<mapsto> ''o''] (Some (Price, 1)) ?r"
  have v: "productsRef ?r < length (arrays ?r)" by simp
  have f: "filteredProductsRef ?r' = 2" by code_simp
  have p: "filterSort [orange_orange, rice, orange] [''name'' \<mapsto> ''o''] (Some (Price, 1))
             = [orange, orange_orange]" by code_simp
  show ?thesis
    using v f p pipeline_keeps_products_array [OF v, of "[''name'' \<mapsto> ''o'']" "Some (Price, 1)"]
    by simp
qed

end
